theory Spec2Isabelle
  imports Complex_Main
begin

section \<open>Stereo capture geometry of \<open>capture.py\<close> and \<open>CaptureView/CaptureView.py\<close>\<close>

text \<open>
  The two scripts compute stereo camera poses over a calibrated grid and hand them to a
  CAD host. The embedding below follows the Python text function by function.

  Conventions of the embedding:
  \<^item> a Python \<open>float\<close> is a \<^typ>\<open>real\<close>: arithmetic is exact, so rounding, infinities and
    NaN are outside the model, and a decimal literal such as \<open>8.039\<close> is the rational
    \<open>8039 / 1000\<close>;
  \<^item> a Python \<open>int\<close> is an \<^typ>\<open>int\<close>;
  \<^item> a \<open>dict\<close> with integer keys is the list of its items in insertion order
    (keys pairwise distinct, as in every Python dict);
  \<^item> every exception the code can raise is a value \<open>Inl e\<close> of a sum type.
\<close>

subsection \<open>Exceptions and primitive operations\<close>

datatype py_error =
    IndexError
  | KeyError
  | ZeroDivisionError
  | ValueError
  | RuntimeError string

type_synonym 'a result = "py_error + 'a"

type_synonym knot_map = "(int \<times> real) list"

text \<open>\<open>knot_map[k]\<close>: raises \<open>KeyError\<close> on a missing key.\<close>

definition getitem :: "knot_map \<Rightarrow> int \<Rightarrow> real result" where
  "getitem knot_map k =
     (case map_of knot_map k of None \<Rightarrow> Inl KeyError | Some v \<Rightarrow> Inr v)"

text \<open>\<open>a / b\<close> on floats: raises \<open>ZeroDivisionError\<close> on a zero divisor.\<close>

definition truediv :: "real \<Rightarrow> real \<Rightarrow> real result" where
  "truediv a b = (if b = 0 then Inl ZeroDivisionError else Inr (a / b))"

subsection \<open>Constants (\<open>capture.py\<close>, lines 34--69)\<close>

definition CM_PER_IN :: real where "CM_PER_IN = 2.54"
definition IN_PER_CM :: real where "IN_PER_CM = 1.0 / 2.54"

definition GRID_Z_IN :: real where "GRID_Z_IN = 33.577"
definition EYE_RAISE_IN :: real where "EYE_RAISE_IN = 2.5"
definition EYE_Z_IN :: real where "EYE_Z_IN = GRID_Z_IN + EYE_RAISE_IN"

definition EYE_SEPARATION_IN :: real where "EYE_SEPARATION_IN = 0.5"
definition HALF_BASE_IN :: real where "HALF_BASE_IN = EYE_SEPARATION_IN / 2.0"
definition YAW_OFFSET_DEG :: real where "YAW_OFFSET_DEG = 50.0"
definition PITCH_UP_DEG :: real where "PITCH_UP_DEG = 15.0"
definition VFOV_DEG :: real where "VFOV_DEG = 150.0"

definition IMG_W :: int where "IMG_W = 128"
definition IMG_H :: int where "IMG_H = 128"

definition X_FROM_GRID_Y_IN :: knot_map where
  "X_FROM_GRID_Y_IN = [(0, 8.039), (1, 16.336), (5, 55.519), (9, 94.702), (10, 102.999)]"

definition Y_FROM_GRID_X_IN :: knot_map where
  "Y_FROM_GRID_X_IN = [(0, 6.02), (1, 14.317), (5, 53.50), (9, 92.683), (10, 100.98)]"

subsection \<open>\<open>_interp_linear\<close> (\<open>capture.py\<close>, lines 72--90)\<close>

text \<open>
  The \<open>for\<close> loop over \<open>range(len(keys) - 1)\<close> visits the adjacent pairs
  \<open>(keys[i], keys[i + 1])\<close> from the left and stops at the first pair that encloses
  \<open>index\<close>; \<open>None\<close> is the loop running to its end with \<open>k0\<close>, \<open>k1\<close> still unset.
\<close>

fun find_bracket :: "int list \<Rightarrow> int \<Rightarrow> (int \<times> int) option" where
  "find_bracket (a # b # ks) index =
     (if a \<le> index \<and> index \<le> b then Some (a, b) else find_bracket (b # ks) index)"
| "find_bracket _ index = None"

definition interp_linear :: "int \<Rightarrow> knot_map \<Rightarrow> real result" where
  "interp_linear index knot_map =
     (if map_of knot_map index \<noteq> None then getitem knot_map index
      else
        let keys = sort (map fst knot_map) in
        (case keys of
           [] \<Rightarrow> Inl IndexError
         | key0 # _ \<Rightarrow>
             if index \<le> key0 then getitem knot_map key0
             else if index \<ge> last keys then getitem knot_map (last keys)
             else
               (case find_bracket keys index of
                  None \<Rightarrow> getitem knot_map key0
                | Some (k0, k1) \<Rightarrow>
                    if k1 = k0 then getitem knot_map key0
                    else
                      (case truediv (of_int (index - k0)) (of_int (k1 - k0)) of
                         Inl e \<Rightarrow> Inl e
                       | Inr t \<Rightarrow>
                           (case getitem knot_map k0 of
                              Inl e \<Rightarrow> Inl e
                            | Inr v0 \<Rightarrow>
                                (case getitem knot_map k1 of
                                   Inl e \<Rightarrow> Inl e
                                 | Inr v1 \<Rightarrow> Inr (v0 * (1.0 - t) + v1 * t)))))))"

subsection \<open>Grid to model, unit conversion, planar vectors (\<open>capture.py\<close>, lines 93--128)\<close>

definition bind_result :: "'a result \<Rightarrow> ('a \<Rightarrow> 'b result) \<Rightarrow> 'b result" where
  "bind_result r f = (case r of Inl e \<Rightarrow> Inl e | Inr v \<Rightarrow> f v)"

definition grid_to_model_in :: "int \<Rightarrow> int \<Rightarrow> (real \<times> real \<times> real) result" where
  "grid_to_model_in gx gy =
     bind_result (interp_linear gy X_FROM_GRID_Y_IN) (\<lambda>mx.
     bind_result (interp_linear gx Y_FROM_GRID_X_IN) (\<lambda>my.
     let mz = GRID_Z_IN in Inr (mx, my, mz)))"

definition inches_to_cm :: "real \<Rightarrow> real" where
  "inches_to_cm x_in = x_in * CM_PER_IN"

text \<open>\<open>math.radians\<close> and \<open>math.hypot\<close>.\<close>

definition radians :: "real \<Rightarrow> real" where
  "radians deg = deg * (pi / 180)"

definition hypot :: "real \<Rightarrow> real \<Rightarrow> real" where
  "hypot x y = sqrt (x * x + y * y)"

definition rot2d :: "real \<Rightarrow> real \<Rightarrow> real \<Rightarrow> real \<times> real" where
  "rot2d vx vy deg =
     (let rad = radians deg; c = cos rad; s = sin rad
      in (vx * c - vy * s, vx * s + vy * c))"

definition norm2d :: "real \<Rightarrow> real \<Rightarrow> (real \<times> real) result" where
  "norm2d vx vy =
     (let mag = hypot vx vy in
      if mag \<le> 1 / 10 ^ 9 then Inr (0.0, 0.0)
      else bind_result (truediv vx mag) (\<lambda>ux.
           bind_result (truediv vy mag) (\<lambda>uy. Inr (ux, uy))))"

definition is_corner :: "int \<Rightarrow> int \<Rightarrow> bool" where
  "is_corner gx gy \<longleftrightarrow> gx \<in> set [0, 10] \<and> gy \<in> set [0, 10]"

subsection \<open>Strings\<close>

text \<open>
  A Python \<open>str\<close> is a \<^typ>\<open>string\<close> whose characters are the code points below 256.
  \<open>is_space\<close> is \<open>str.isspace\<close> on one such character: tab to carriage return, the four
  separators \<open>0x1C\<close>--\<open>0x1F\<close>, the space, NEL (\<open>0x85\<close>) and the no-break space
  (\<open>0xA0\<close>).
\<close>

definition is_space :: "char \<Rightarrow> bool" where
  "is_space c =
     (let n = (of_char c :: nat)
      in (9 \<le> n \<and> n \<le> 13) \<or> (28 \<le> n \<and> n \<le> 32) \<or> n = 133 \<or> n = 160)"

definition py_strip :: "string \<Rightarrow> string" where
  "py_strip s = rev (dropWhile is_space (rev (dropWhile is_space s)))"

definition startswith :: "string \<Rightarrow> string \<Rightarrow> bool" where
  "startswith s p \<longleftrightarrow> take (length p) s = p"

text \<open>\<open>s.split(sep)\<close> for a one-character separator: never the empty list.\<close>

fun py_split :: "string \<Rightarrow> char \<Rightarrow> string list" where
  "py_split [] sep = [[]]"
| "py_split (c # cs) sep =
     (if c = sep then [] # py_split cs sep
      else (case py_split cs sep of
              [] \<Rightarrow> [[c]]
            | part # parts \<Rightarrow> (c # part) # parts))"

text \<open>
  \<open>int(s)\<close> on a string, base ten: surrounding whitespace is ignored, then an optional
  sign, then decimal digits, where single underscores may stand between two digits.
  Anything else raises \<open>ValueError\<close>. (The interpreter's optional limit on the number
  of digits is not modelled.)
\<close>

definition is_digit :: "char \<Rightarrow> bool" where
  "is_digit c = (let n = (of_char c :: nat) in 48 \<le> n \<and> n \<le> 57)"

definition digit_val :: "char \<Rightarrow> nat" where
  "digit_val c = of_char c - 48"

fun digits_rest :: "nat \<Rightarrow> string \<Rightarrow> nat option" where
  "digits_rest acc [] = Some acc"
| "digits_rest acc [c] = (if is_digit c then Some (10 * acc + digit_val c) else None)"
| "digits_rest acc (c # d # cs) =
     (if is_digit c then digits_rest (10 * acc + digit_val c) (d # cs)
      else if c = CHR ''_'' \<and> is_digit d then digits_rest (10 * acc + digit_val d) cs
      else None)"

definition digits_value :: "string \<Rightarrow> nat option" where
  "digits_value s =
     (case s of
        [] \<Rightarrow> None
      | c # cs \<Rightarrow> if is_digit c then digits_rest (digit_val c) cs else None)"

definition py_int :: "string \<Rightarrow> int result" where
  "py_int s =
     (let t = py_strip s;
          v = (case t of
                 [] \<Rightarrow> None
               | c # cs \<Rightarrow>
                   if c = CHR ''-'' then map_option (\<lambda>n. - int n) (digits_value cs)
                   else if c = CHR ''+'' then map_option int (digits_value cs)
                   else map_option int (digits_value t))
      in case v of None \<Rightarrow> Inl ValueError | Some i \<Rightarrow> Inr i)"

text \<open>\<open>str(i)\<close> on an integer, as the f-strings of the file names use it.\<close>

fun str_nat :: "nat \<Rightarrow> string" where
  "str_nat n =
     (if n < 10 then [char_of (48 + n)]
      else str_nat (n div 10) @ [char_of (48 + n mod 10)])"

definition str_int :: "int \<Rightarrow> string" where
  "str_int i = (if i < 0 then CHR ''-'' # str_nat (nat (- i)) else str_nat (nat i))"

subsection \<open>\<open>parse_positions_txt\<close> (\<open>capture.py\<close>, lines 135--158)\<close>

text \<open>
  The function's input is the file: the list \<open>f.readlines()\<close> returns (that the file
  exists and decodes is the caller's concern). \<open>parse_lines\<close> is the \<open>for\<close> loop over
  the stripped lines, with the two variables it updates, \<open>prefix\<close> and \<open>positions\<close>
  (the loop variable \<open>ln\<close> is written \<open>line\<close>).
  The bare \<open>except\<close> turns any error of the two conversions into skipping the line.
\<close>

fun parse_lines ::
  "string list \<Rightarrow> string option \<Rightarrow> (int \<times> int) list \<Rightarrow> string option \<times> (int \<times> int) list"
where
  "parse_lines [] prefix positions = (prefix, positions)"
| "parse_lines (line # lns) prefix positions =
     (if line = [] \<or> startswith line ''#'' then parse_lines lns prefix positions
      else if prefix = None then parse_lines lns (Some line) positions
      else
        let parts = py_split line (CHR '','') in
        if length parts \<noteq> 2 then parse_lines lns prefix positions
        else
          (case bind_result (py_int (py_strip (parts ! 0))) (\<lambda>gx.
                bind_result (py_int (py_strip (parts ! 1))) (\<lambda>gy. Inr (gx, gy))) of
             Inl e \<Rightarrow> parse_lines lns prefix positions
           | Inr p \<Rightarrow> parse_lines lns prefix (positions @ [p])))"

definition parse_positions_txt :: "string list \<Rightarrow> (string \<times> (int \<times> int) list) result" where
  "parse_positions_txt file_lines =
     (let lines = map py_strip file_lines in
      case parse_lines lines None [] of
        (None, positions) \<Rightarrow>
          Inl (RuntimeError ''positions.txt missing file_prefix on first line.'')
      | (Some prefix, positions) \<Rightarrow> Inr (prefix, positions))"

subsection \<open>\<open>run\<close> (\<open>capture.py\<close>, lines 220--348)\<close>

text \<open>
  \<open>set_camera_and_capture\<close> moves the host's camera and saves one image. The model
  records each call, in order, as a \<open>render_request\<close>: the eye point (cm), the forward
  vector, the vertical field of view and the file name (the f-string; the directory
  \<open>photos/<prefix>\<close> it is joined to is left out). The host's calls are taken to return
  normally: the file holds no \<open>raise\<close> on that path.
\<close>

record render_request =
  eye_pt_cm :: "real \<times> real \<times> real"
  fwd_vec3 :: "real \<times> real \<times> real"
  v_fov_deg :: real
  out_file :: string

type_synonym direction = "string \<times> (real \<times> real)"

definition model_xy_cm :: "int \<Rightarrow> int \<Rightarrow> (real \<times> real) result" where
  "model_xy_cm gx gy =
     bind_result (grid_to_model_in gx gy) (\<lambda>(mx_in, my_in, mz_in).
     Inr (inches_to_cm mx_in, inches_to_cm my_in))"

text \<open>Lines 243--272: the basis, computed once, as the pair (cardinal set, diagonal set).\<close>

definition direction_sets :: "(direction list \<times> direction list) result" where
  "direction_sets =
     bind_result (model_xy_cm 5 5) (\<lambda>p_55.
     bind_result (model_xy_cm 5 0) (\<lambda>p_50.
     bind_result (model_xy_cm 10 5) (\<lambda>p_105.
     bind_result (norm2d (fst p_50 - fst p_55) (snd p_50 - snd p_55)) (\<lambda>north2.
     bind_result (norm2d (fst p_105 - fst p_55) (snd p_105 - snd p_55)) (\<lambda>east2.
     let south2 = (- fst north2, - snd north2);
         west2 = (- fst east2, - snd east2) in
     bind_result (norm2d (fst north2 + fst east2) (snd north2 + snd east2)) (\<lambda>ne2.
     bind_result (norm2d (fst south2 + fst east2) (snd south2 + snd east2)) (\<lambda>se2.
     bind_result (norm2d (fst south2 + fst west2) (snd south2 + snd west2)) (\<lambda>sw2.
     bind_result (norm2d (fst north2 + fst west2) (snd north2 + snd west2)) (\<lambda>nw2.
     let dirs_cardinal =
           [(''north'', north2), (''east'', east2), (''south'', south2), (''west'', west2)];
         dirs_diagonal =
           [(''ne'', ne2), (''se'', se2), (''sw'', sw2), (''nw'', nw2)]
     in Inr (dirs_cardinal, dirs_diagonal))))))))))"

text \<open>Lines 287--337: the body of the inner loop, for one direction of one cell.\<close>

definition capture_direction ::
  "string \<Rightarrow> int \<Rightarrow> int \<Rightarrow> real \<Rightarrow> real \<Rightarrow> real \<Rightarrow> direction \<Rightarrow> render_request list"
where
  "capture_direction prefix gx gy cx cy cz d =
     (case d of (dir_name, base_fwd2) \<Rightarrow>
        let right2 = (snd base_fwd2, - fst base_fwd2);
            left_eye_xy =
              (cx - fst right2 * inches_to_cm HALF_BASE_IN,
               cy - snd right2 * inches_to_cm HALF_BASE_IN);
            right_eye_xy =
              (cx + fst right2 * inches_to_cm HALF_BASE_IN,
               cy + snd right2 * inches_to_cm HALF_BASE_IN);
            left_fwd2 = rot2d (fst base_fwd2) (snd base_fwd2) YAW_OFFSET_DEG;
            right_fwd2 = rot2d (fst base_fwd2) (snd base_fwd2) (- YAW_OFFSET_DEG);
            cp = cos (radians PITCH_UP_DEG);
            sp = sin (radians PITCH_UP_DEG);
            left_fwd3 = (fst left_fwd2 * cp, snd left_fwd2 * cp, sp);
            right_fwd3 = (fst right_fwd2 * cp, snd right_fwd2 * cp, sp);
            left_eye_pt = (fst left_eye_xy, snd left_eye_xy, cz);
            left_file =
              prefix @ ''_'' @ str_int gx @ ''_'' @ str_int gy @ ''_'' @ dir_name @ ''_left.png'';
            right_eye_pt = (fst right_eye_xy, snd right_eye_xy, cz);
            right_file =
              prefix @ ''_'' @ str_int gx @ ''_'' @ str_int gy @ ''_'' @ dir_name @ ''_right.png''
        in [\<lparr>eye_pt_cm = left_eye_pt, fwd_vec3 = left_fwd3,
              v_fov_deg = VFOV_DEG, out_file = left_file\<rparr>,
            \<lparr>eye_pt_cm = right_eye_pt, fwd_vec3 = right_fwd3,
              v_fov_deg = VFOV_DEG, out_file = right_file\<rparr>])"

text \<open>Lines 275--337: the body of the outer loop, for one grid position.\<close>

definition capture_cell ::
  "string \<Rightarrow> direction list \<Rightarrow> direction list \<Rightarrow> int \<times> int \<Rightarrow> render_request list result"
where
  "capture_cell prefix dirs_cardinal dirs_diagonal pos =
     (case pos of (gx, gy) \<Rightarrow>
        bind_result (grid_to_model_in gx gy) (\<lambda>(mx_in, my_in, mz_in).
        let cx = inches_to_cm mx_in;
            cy = inches_to_cm my_in;
            cz = inches_to_cm EYE_Z_IN;
            dirs = (if is_corner gx gy then dirs_diagonal else dirs_cardinal)
        in Inr (concat (map (capture_direction prefix gx gy cx cy cz) dirs))))"

text \<open>
  The outer loop threads the requests issued so far; an exception stops it and keeps
  what was already rendered.
\<close>

fun capture_positions ::
  "string \<Rightarrow> direction list \<Rightarrow> direction list \<Rightarrow> (int \<times> int) list \<Rightarrow>
   render_request list \<Rightarrow> render_request list \<times> py_error option"
where
  "capture_positions prefix dirs_cardinal dirs_diagonal [] issued = (issued, None)"
| "capture_positions prefix dirs_cardinal dirs_diagonal (pos # rest) issued =
     (case capture_cell prefix dirs_cardinal dirs_diagonal pos of
        Inl e \<Rightarrow> (issued, Some e)
      | Inr reqs \<Rightarrow> capture_positions prefix dirs_cardinal dirs_diagonal rest (issued @ reqs))"

text \<open>
  \<open>run\<close> returns the requests it issued and how it ended: the message box of a
  completed capture, or the one the \<open>except\<close> clause shows.
\<close>

datatype outcome = Completed string | Failed py_error

definition run :: "string list \<Rightarrow> render_request list \<times> outcome" where
  "run file_lines =
     (case parse_positions_txt file_lines of
        Inl e \<Rightarrow> ([], Failed e)
      | Inr (prefix, positions) \<Rightarrow>
          (case direction_sets of
             Inl e \<Rightarrow> ([], Failed e)
           | Inr (dirs_cardinal, dirs_diagonal) \<Rightarrow>
               (case capture_positions prefix dirs_cardinal dirs_diagonal positions [] of
                  (issued, None) \<Rightarrow> (issued, Completed prefix)
                | (issued, Some e) \<Rightarrow> (issued, Failed e))))"

subsection \<open>The geometric core of \<open>CaptureView/CaptureView.py\<close> (lines 9--94)\<close>

definition CaptureView_CM_PER_IN :: real where "CaptureView_CM_PER_IN = 2.54"

definition CaptureView_GRID_Z_IN :: real where "CaptureView_GRID_Z_IN = 33.577"
definition CaptureView_EYE_RAISE_IN :: real where "CaptureView_EYE_RAISE_IN = 2.5"
definition CaptureView_EYE_Z_IN :: real where
  "CaptureView_EYE_Z_IN = CaptureView_GRID_Z_IN + CaptureView_EYE_RAISE_IN"

definition CaptureView_EYE_SEPARATION_IN :: real where "CaptureView_EYE_SEPARATION_IN = 0.5"
definition CaptureView_HALF_BASE_IN :: real where
  "CaptureView_HALF_BASE_IN = CaptureView_EYE_SEPARATION_IN / 2.0"
definition CaptureView_YAW_OFFSET_DEG :: real where "CaptureView_YAW_OFFSET_DEG = 50.0"
definition CaptureView_PITCH_UP_DEG :: real where "CaptureView_PITCH_UP_DEG = 15.0"
definition CaptureView_VFOV_DEG :: real where "CaptureView_VFOV_DEG = 150.0"

definition CaptureView_IMG_W :: int where "CaptureView_IMG_W = 128"
definition CaptureView_IMG_H :: int where "CaptureView_IMG_H = 128"

definition CaptureView_X_FROM_GRID_Y_IN :: knot_map where
  "CaptureView_X_FROM_GRID_Y_IN =
     [(0, 8.039), (1, 16.336), (5, 55.519), (9, 94.702), (10, 102.999)]"

definition CaptureView_Y_FROM_GRID_X_IN :: knot_map where
  "CaptureView_Y_FROM_GRID_X_IN =
     [(0, 6.02), (1, 14.317), (5, 53.50), (9, 92.683), (10, 100.98)]"

fun CaptureView_find_bracket :: "int list \<Rightarrow> int \<Rightarrow> (int \<times> int) option" where
  "CaptureView_find_bracket (a # b # ks) index =
     (if a \<le> index \<and> index \<le> b then Some (a, b)
      else CaptureView_find_bracket (b # ks) index)"
| "CaptureView_find_bracket _ index = None"

definition CaptureView_interp_linear :: "int \<Rightarrow> knot_map \<Rightarrow> real result" where
  "CaptureView_interp_linear index knot_map =
     (if map_of knot_map index \<noteq> None then getitem knot_map index
      else
        let keys = sort (map fst knot_map) in
        (case keys of
           [] \<Rightarrow> Inl IndexError
         | key0 # _ \<Rightarrow>
             if index \<le> key0 then getitem knot_map key0
             else if index \<ge> last keys then getitem knot_map (last keys)
             else
               (case CaptureView_find_bracket keys index of
                  None \<Rightarrow> getitem knot_map key0
                | Some (k0, k1) \<Rightarrow>
                    if k1 = k0 then getitem knot_map key0
                    else
                      (case truediv (of_int (index - k0)) (of_int (k1 - k0)) of
                         Inl e \<Rightarrow> Inl e
                       | Inr t \<Rightarrow>
                           (case getitem knot_map k0 of
                              Inl e \<Rightarrow> Inl e
                            | Inr v0 \<Rightarrow>
                                (case getitem knot_map k1 of
                                   Inl e \<Rightarrow> Inl e
                                 | Inr v1 \<Rightarrow> Inr (v0 * (1.0 - t) + v1 * t)))))))"

definition CaptureView_grid_to_model_in :: "int \<Rightarrow> int \<Rightarrow> (real \<times> real \<times> real) result" where
  "CaptureView_grid_to_model_in gx gy =
     bind_result (CaptureView_interp_linear gy CaptureView_X_FROM_GRID_Y_IN) (\<lambda>mx.
     bind_result (CaptureView_interp_linear gx CaptureView_Y_FROM_GRID_X_IN) (\<lambda>my.
     let mz = CaptureView_GRID_Z_IN in Inr (mx, my, mz)))"

definition CaptureView_inches_to_cm :: "real \<Rightarrow> real" where
  "CaptureView_inches_to_cm x_in = x_in * CaptureView_CM_PER_IN"

definition CaptureView_rot2d :: "real \<Rightarrow> real \<Rightarrow> real \<Rightarrow> real \<times> real" where
  "CaptureView_rot2d vx vy deg =
     (let rad = radians deg; c = cos rad; s = sin rad
      in (vx * c - vy * s, vx * s + vy * c))"

definition CaptureView_norm2d :: "real \<Rightarrow> real \<Rightarrow> (real \<times> real) result" where
  "CaptureView_norm2d vx vy =
     (let mag = hypot vx vy in
      if mag \<le> 1 / 10 ^ 9 then Inr (0.0, 0.0)
      else bind_result (truediv vx mag) (\<lambda>ux.
           bind_result (truediv vy mag) (\<lambda>uy. Inr (ux, uy))))"

definition CaptureView_is_corner :: "int \<Rightarrow> int \<Rightarrow> bool" where
  "CaptureView_is_corner gx gy \<longleftrightarrow> gx \<in> set [0, 10] \<and> gy \<in> set [0, 10]"

subsection \<open>Reference definitions, after the specification's wording\<close>

text \<open>
  The specification's \<open>interpolate\<close>: the stored value at an exact knot; the boundary
  knot's value below the smallest and above the largest key; otherwise the line through
  the two knots that bracket the index, \<open>v0 + (index - k0) / (k1 - k0) * (v1 - v0)\<close>.
\<close>

definition interpolate_spec :: "int \<Rightarrow> knot_map \<Rightarrow> real" where
  "interpolate_spec index knots =
     (let ks = map fst knots;
          stored = (\<lambda>k. the (map_of knots k))
      in if index \<in> set ks then stored index
         else if index < Min (set ks) then stored (Min (set ks))
         else if index > Max (set ks) then stored (Max (set ks))
         else
           (let k0 = Max (set (filter (\<lambda>k. k < index) ks));
                k1 = Min (set (filter (\<lambda>k. index < k) ks));
                v0 = stored k0;
                v1 = stored k1
            in v0 + of_int (index - k0) / of_int (k1 - k0) * (v1 - v0)))"

text \<open>
  The specification's reading of one line of \<open>positions.txt\<close>. A line is skipped as
  blank or comment when, trimmed, it is empty or starts with \<open>#\<close>. A position line is a
  \<open>gx,gy\<close> pair: exactly two comma-separated parts that both parse as integers; any other
  line yields no position.
\<close>

definition blank_or_comment :: "string \<Rightarrow> bool" where
  "blank_or_comment raw \<longleftrightarrow> py_strip raw = [] \<or> startswith (py_strip raw) ''#''"

definition position_of_line :: "string \<Rightarrow> (int \<times> int) option" where
  "position_of_line raw =
     (if blank_or_comment raw then None
      else
        (case py_split (py_strip raw) (CHR '','') of
           [a, b] \<Rightarrow>
             (case (py_int a, py_int b) of
                (Inr gx, Inr gy) \<Rightarrow> Some (gx, gy)
              | _ \<Rightarrow> None)
         | _ \<Rightarrow> None))"

section \<open>Properties\<close>

subsection \<open>Piecewise-linear interpolation\<close>

lemma lerp_forms: "v0 * (1 - t) + v1 * t = v0 + t * (v1 - v0)" for t :: real
  by (simp add: algebra_simps)

lemma getitem_mem:
  "distinct (map fst m) \<Longrightarrow> (k, v) \<in> set m \<Longrightarrow> getitem m k = Inr v"
  by (simp add: getitem_def)

lemma sorted_hd_le: "sorted xs \<Longrightarrow> x \<in> set xs \<Longrightarrow> hd xs \<le> (x::int)"
  by (cases xs) auto

lemma sorted_le_last: "sorted xs \<Longrightarrow> x \<in> set xs \<Longrightarrow> (x::int) \<le> last xs"
  by (induction xs) auto

text \<open>
  On a sorted list of at least two keys whose ends enclose the index, the loop stops at
  an adjacent pair that encloses it.
\<close>

lemma find_bracket_encloses:
  "sorted keys \<Longrightarrow> hd keys \<le> index \<Longrightarrow> index \<le> last keys \<Longrightarrow> length keys \<ge> 2 \<Longrightarrow>
   \<exists>k0 k1. find_bracket keys index = Some (k0, k1) \<and> k0 \<in> set keys \<and> k1 \<in> set keys \<and>
     k0 \<le> index \<and> index \<le> k1 \<and> (\<forall>k \<in> set keys. k \<le> k0 \<or> k1 \<le> k)"
proof (induction keys index rule: find_bracket.induct)
  case (1 a b ks index)
  show ?case
  proof (cases "a \<le> index \<and> index \<le> b")
    case True
    with "1.prems" show ?thesis by auto
  next
    case False
    with "1.prems" have b: "b \<le> index" by auto
    with "1.prems" False have "ks \<noteq> []" by auto
    with "1.prems" b False
    have "\<exists>k0 k1. find_bracket (b # ks) index = Some (k0, k1) \<and> k0 \<in> set (b # ks) \<and>
            k1 \<in> set (b # ks) \<and> k0 \<le> index \<and> index \<le> k1 \<and>
            (\<forall>k \<in> set (b # ks). k \<le> k0 \<or> k1 \<le> k)"
      by (intro "1.IH") (auto simp: Suc_le_eq)
    then obtain k0 k1 where h: "find_bracket (b # ks) index = Some (k0, k1)"
        "k0 \<in> set (b # ks)" "k1 \<in> set (b # ks)" "k0 \<le> index" "index \<le> k1"
        "\<forall>k \<in> set (b # ks). k \<le> k0 \<or> k1 \<le> k"
      by blast
    from "1.prems" h(2) have "a \<le> k0" by auto
    with h False show ?thesis by auto
  qed
qed simp_all

lemma interp_linear_exact:
  assumes "map_of m index = Some v"
  shows "interp_linear index m = Inr v"
  using assms by (simp add: interp_linear_def getitem_def)

lemma interp_linear_below:
  assumes d: "distinct (map fst m)" and mem: "(k, v) \<in> set m"
    and least: "\<forall>k' \<in> fst ` set m. k \<le> k'" and idx: "index \<le> k"
  shows "interp_linear index m = Inr v"
proof (cases "map_of m index = None")
  case False
  then obtain w where w: "map_of m index = Some w" by auto
  then have "(index, w) \<in> set m" by (rule map_of_SomeD)
  with least idx have "index = k" by force
  with w d mem have "w = v" by simp
  with w show ?thesis by (simp add: interp_linear_exact)
next
  case True
  define keys where "keys = sort (map fst m)"
  have s: "sorted keys" and st: "set keys = fst ` set m" by (simp_all add: keys_def)
  from mem st have kin: "k \<in> set keys" by force
  then obtain key0 rest where kr: "keys = key0 # rest" by (cases keys) auto
  have "key0 \<in> set keys" by (simp add: kr)
  with st least have "k \<le> key0" by auto
  moreover from s kin have "hd keys \<le> k" by (rule sorted_hd_le)
  ultimately have "key0 = k" by (simp add: kr)
  with True idx kr show ?thesis
    by (simp add: interp_linear_def keys_def[symmetric] getitem_mem[OF d mem])
qed

lemma interp_linear_above:
  assumes d: "distinct (map fst m)" and mem: "(k, v) \<in> set m"
    and greatest: "\<forall>k' \<in> fst ` set m. k' \<le> k" and idx: "k \<le> index"
  shows "interp_linear index m = Inr v"
proof (cases "map_of m index = None")
  case False
  then obtain w where w: "map_of m index = Some w" by auto
  then have "(index, w) \<in> set m" by (rule map_of_SomeD)
  with greatest idx have "index = k" by force
  with w d mem have "w = v" by simp
  with w show ?thesis by (simp add: interp_linear_exact)
next
  case True
  define keys where "keys = sort (map fst m)"
  have s: "sorted keys" and st: "set keys = fst ` set m" by (simp_all add: keys_def)
  from mem st have kin: "k \<in> set keys" by force
  then obtain key0 rest where kr: "keys = key0 # rest" by (cases keys) auto
  have "last keys \<in> set keys" using kr by simp
  with st greatest have "last keys \<le> k" by auto
  moreover from s kin have "k \<le> last keys" by (rule sorted_le_last)
  ultimately have lk: "last keys = k" by simp
  have k0in: "key0 \<in> set keys" by (simp add: kr)
  show ?thesis
  proof (cases "index \<le> key0")
    case le: True
    from k0in st greatest have "key0 \<le> k" by auto
    with le idx have "key0 = k" by simp
    with True le kr show ?thesis
      by (simp add: interp_linear_def keys_def[symmetric] getitem_mem[OF d mem])
  next
    case False
    with True idx kr lk show ?thesis
      by (simp add: interp_linear_def keys_def[symmetric] getitem_mem[OF d mem])
  qed
qed

lemma interp_linear_between:
  assumes d: "distinct (map fst m)"
    and m0: "(k0, v0) \<in> set m" and m1: "(k1, v1) \<in> set m"
    and lo: "k0 < index" and hi: "index < k1"
    and adj: "\<forall>k \<in> fst ` set m. k \<le> k0 \<or> k1 \<le> k"
  shows "interp_linear index m =
         Inr (v0 + real_of_int (index - k0) / real_of_int (k1 - k0) * (v1 - v0))"
proof -
  define keys where "keys = sort (map fst m)"
  have s: "sorted keys" and st: "set keys = fst ` set m" by (simp_all add: keys_def)
  from adj lo hi have "index \<notin> fst ` set m" by force
  then have none: "map_of m index = None" by (simp add: map_of_eq_None_iff)
  from m0 m1 st have k0in: "k0 \<in> set keys" and k1in: "k1 \<in> set keys" by force+
  then obtain key0 rest where kr: "keys = key0 # rest" by (cases keys) auto
  from s k0in have "hd keys \<le> k0" by (rule sorted_hd_le)
  with lo kr have a: "key0 < index" by simp
  from s k1in have "k1 \<le> last keys" by (rule sorted_le_last)
  with hi have b: "index < last keys" by simp
  from a b kr have "rest \<noteq> []" by auto
  with kr have len: "length keys \<ge> 2" by (cases rest) auto
  from find_bracket_encloses[OF s _ _ len, of index] a b kr
  obtain a0 a1 where f: "find_bracket keys index = Some (a0, a1)"
    and a0in: "a0 \<in> set keys" and a1in: "a1 \<in> set keys"
    and a0le: "a0 \<le> index" and a1ge: "index \<le> a1"
    and aadj: "\<forall>k \<in> set keys. k \<le> a0 \<or> a1 \<le> k"
    by auto
  from aadj k0in lo a1ge have "k0 \<le> a0" by auto
  moreover from adj a0in st a0le hi have "a0 \<le> k0" by auto
  ultimately have e0: "a0 = k0" by simp
  from aadj k1in hi a0le have "a1 \<le> k1" by auto
  moreover from adj a1in st a1ge lo have "k1 \<le> a1" by auto
  ultimately have e1: "a1 = k1" by simp
  from lo hi have ne: "k1 \<noteq> k0" "real_of_int k1 - real_of_int k0 \<noteq> 0" by auto
  have "interp_linear index m =
        Inr (v0 * (1 - real_of_int (index - k0) / real_of_int (k1 - k0)) +
             v1 * (real_of_int (index - k0) / real_of_int (k1 - k0)))"
    using none kr a b f e0 e1 ne
    by (simp add: interp_linear_def keys_def[symmetric] getitem_mem[OF d m0]
        getitem_mem[OF d m1] truediv_def)
  also have "v0 * (1 - real_of_int (index - k0) / real_of_int (k1 - k0)) +
             v1 * (real_of_int (index - k0) / real_of_int (k1 - k0)) =
             v0 + real_of_int (index - k0) / real_of_int (k1 - k0) * (v1 - v0)"
    by (rule lerp_forms)
  finally show ?thesis .
qed

text \<open>The reference definition, branch by branch.\<close>

lemma interpolate_spec_exact:
  "index \<in> fst ` set m \<Longrightarrow> interpolate_spec index m = the (map_of m index)"
  unfolding interpolate_spec_def Let_def by (simp only: set_map if_True)

lemma interpolate_spec_below:
  "index \<notin> fst ` set m \<Longrightarrow> index < Min (fst ` set m) \<Longrightarrow>
   interpolate_spec index m = the (map_of m (Min (fst ` set m)))"
  unfolding interpolate_spec_def Let_def by (simp only: set_map if_True if_False)

lemma interpolate_spec_above:
  "index \<notin> fst ` set m \<Longrightarrow> \<not> index < Min (fst ` set m) \<Longrightarrow> index > Max (fst ` set m) \<Longrightarrow>
   interpolate_spec index m = the (map_of m (Max (fst ` set m)))"
  unfolding interpolate_spec_def Let_def by (simp only: set_map if_True if_False)

lemma interpolate_spec_between:
  "index \<notin> fst ` set m \<Longrightarrow> \<not> index < Min (fst ` set m) \<Longrightarrow> \<not> index > Max (fst ` set m) \<Longrightarrow>
   interpolate_spec index m =
     the (map_of m (Max (set (filter (\<lambda>k. k < index) (map fst m))))) +
     real_of_int (index - Max (set (filter (\<lambda>k. k < index) (map fst m)))) /
     real_of_int (Min (set (filter (\<lambda>k. index < k) (map fst m))) -
                  Max (set (filter (\<lambda>k. k < index) (map fst m)))) *
     (the (map_of m (Min (set (filter (\<lambda>k. index < k) (map fst m))))) -
      the (map_of m (Max (set (filter (\<lambda>k. k < index) (map fst m))))))"
  unfolding interpolate_spec_def Let_def by (simp only: set_map if_True if_False)


lemma stored_mem:
  "distinct (map fst m) \<Longrightarrow> k \<in> fst ` set m \<Longrightarrow> (k, the (map_of m k)) \<in> set m"
  by (cases "map_of m k") (auto simp: map_of_eq_None_iff dest: map_of_SomeD)

text \<open>The code computes the reference definition on every non-empty knot map.\<close>

lemma interp_linear_spec_general:
  assumes ne: "m \<noteq> []" and d: "distinct (map fst m)"
  shows "interp_linear index m = Inr (interpolate_spec index m)"
proof -
  define ks where "ks = fst ` set m"
  have fin: "finite ks" and nonempty: "ks \<noteq> {}" using ne by (simp_all add: ks_def)
  have stored: "(k, the (map_of m k)) \<in> set m" if "k \<in> ks" for k
    using d that unfolding ks_def by (rule stored_mem)
  have mn: "Min ks \<in> ks" using fin nonempty by (rule Min_in)
  have mx: "Max ks \<in> ks" using fin nonempty by (rule Max_in)
  consider (exact) "index \<in> ks" | (below) "index \<notin> ks" "index < Min ks"
    | (above) "index \<notin> ks" "\<not> index < Min ks" "index > Max ks"
    | (between) "index \<notin> ks" "\<not> index < Min ks" "\<not> index > Max ks"
    by blast
  then show ?thesis
  proof cases
    case exact
    then have "(index, the (map_of m index)) \<in> set m" by (rule stored)
    with d have "map_of m index = Some (the (map_of m index))" by (rule map_of_is_SomeI)
    then have "interp_linear index m = Inr (the (map_of m index))"
      by (rule interp_linear_exact)
    also have "the (map_of m index) = interpolate_spec index m"
      using exact unfolding ks_def by (rule interpolate_spec_exact[symmetric])
    finally show ?thesis .
  next
    case below
    have "interp_linear index m = Inr (the (map_of m (Min ks)))"
    proof (rule interp_linear_below[OF d stored[OF mn]])
      show "\<forall>k'\<in>fst ` set m. Min ks \<le> k'" using fin unfolding ks_def by simp
      show "index \<le> Min ks" using below(2) by simp
    qed
    also have "the (map_of m (Min ks)) = interpolate_spec index m"
      using below unfolding ks_def by (rule interpolate_spec_below[symmetric])
    finally show ?thesis .
  next
    case above
    have "interp_linear index m = Inr (the (map_of m (Max ks)))"
    proof (rule interp_linear_above[OF d stored[OF mx]])
      show "\<forall>k'\<in>fst ` set m. k' \<le> Max ks" using fin unfolding ks_def by simp
      show "Max ks \<le> index" using above(3) by simp
    qed
    also have "the (map_of m (Max ks)) = interpolate_spec index m"
      using above unfolding ks_def by (rule interpolate_spec_above[symmetric])
    finally show ?thesis .
  next
    case between
    define lower where "lower = set (filter (\<lambda>k. k < index) (map fst m))"
    define upper where "upper = set (filter (\<lambda>k. index < k) (map fst m))"
    have lower: "k \<in> lower \<longleftrightarrow> k \<in> ks \<and> k < index" for k
      unfolding lower_def ks_def by auto
    have upper: "k \<in> upper \<longleftrightarrow> k \<in> ks \<and> index < k" for k
      unfolding upper_def ks_def by auto
    have finl: "finite lower" and finu: "finite upper"
      by (simp_all add: lower_def upper_def)
    from mn between(1,2) have "Min ks \<in> lower" unfolding lower by (metis not_less_iff_gr_or_eq)
    then have nel: "lower \<noteq> {}" by blast
    from mx between(1,3) have "Max ks \<in> upper" unfolding upper by (metis not_less_iff_gr_or_eq)
    then have neu: "upper \<noteq> {}" by blast
    have k0: "Max lower \<in> lower" using finl nel by (rule Max_in)
    have k1: "Min upper \<in> upper" using finu neu by (rule Min_in)
    have adj: "\<forall>k \<in> fst ` set m. k \<le> Max lower \<or> Min upper \<le> k"
    proof
      fix k assume "k \<in> fst ` set m"
      then have kk: "k \<in> ks" by (simp add: ks_def)
      with between(1) have "k \<in> lower \<or> k \<in> upper"
        unfolding lower upper by (metis not_less_iff_gr_or_eq)
      then show "k \<le> Max lower \<or> Min upper \<le> k"
      proof
        assume "k \<in> lower"
        with finl have "k \<le> Max lower" by (rule Max_ge)
        then show ?thesis ..
      next
        assume "k \<in> upper"
        with finu have "Min upper \<le> k" by (rule Min_le)
        then show ?thesis ..
      qed
    qed
    have "interp_linear index m =
          Inr (the (map_of m (Max lower)) +
               real_of_int (index - Max lower) / real_of_int (Min upper - Max lower) *
               (the (map_of m (Min upper)) - the (map_of m (Max lower))))"
    proof (rule interp_linear_between[OF d _ _ _ _ adj])
      show "(Max lower, the (map_of m (Max lower))) \<in> set m"
        using k0 unfolding lower by (intro stored) simp
      show "(Min upper, the (map_of m (Min upper))) \<in> set m"
        using k1 unfolding upper by (intro stored) simp
      show "Max lower < index" using k0 unfolding lower by simp
      show "index < Min upper" using k1 unfolding upper by simp
    qed
    also have "the (map_of m (Max lower)) +
               real_of_int (index - Max lower) / real_of_int (Min upper - Max lower) *
               (the (map_of m (Min upper)) - the (map_of m (Max lower))) =
               interpolate_spec index m"
      using between unfolding ks_def lower_def upper_def by (rule interpolate_spec_between[symmetric])
    finally show ?thesis .
  qed
qed



text \<open>
  Claim C2, as amended. On the knots \<open>{0: 8.039, 1: 16.336, 5: 55.519}\<close> the index 3
  lies between the keys 1 and 5, so \<open>_interp_linear\<close> starts from the value at key 1:
  it returns \<open>16.336 + (3 - 1) / (5 - 1) * (55.519 - 16.336) = 35.9275\<close>.
\<close>

theorem interp_linear_scenario:
  "interp_linear 3 [(0, 8.039), (1, 16.336), (5, 55.519)] =
     Inr (16.336 + (3 - 1) / (5 - 1) * (55.519 - 16.336)) \<and>
   interp_linear 3 [(0, 8.039), (1, 16.336), (5, 55.519)] = Inr 35.9275"
  by (simp add: interp_linear_def getitem_def truediv_def)

text \<open>
  The scenario as the specification states it: the value is neither
  \<open>8.039 + (3 - 1) / (5 - 1) * (55.519 - 16.336)\<close> nor near \<open>27.6305\<close>; it is more than
  8 away from it.
\<close>

theorem interp_linear_scenario_counterexample:
  "interp_linear 3 [(0, 8.039), (1, 16.336), (5, 55.519)] \<noteq>
     Inr (8.039 + (3 - 1) / (5 - 1) * (55.519 - 16.336)) \<and>
   interp_linear 3 [(0, 8.039), (1, 16.336), (5, 55.519)] = Inr 35.9275 \<and>
   \<bar>35.9275 - 27.6305\<bar> > (8 :: real)"
  by (simp add: interp_linear_def getitem_def truediv_def)

subsection \<open>Grid to model coordinates\<close>

lemma bind_result_Inr [simp]: "bind_result (Inr v) f = f v"
  by (simp add: bind_result_def)

lemma bind_result_Inl [simp]: "bind_result (Inl e) f = Inl e"
  by (simp add: bind_result_def)

lemma X_table_ok: "X_FROM_GRID_Y_IN \<noteq> []" "distinct (map fst X_FROM_GRID_Y_IN)"
  by (simp_all add: X_FROM_GRID_Y_IN_def)

lemma Y_table_ok: "Y_FROM_GRID_X_IN \<noteq> []" "distinct (map fst Y_FROM_GRID_X_IN)"
  by (simp_all add: Y_FROM_GRID_X_IN_def)

lemma grid_to_model_in_value:
  "grid_to_model_in gx gy =
     Inr (interpolate_spec gy X_FROM_GRID_Y_IN, interpolate_spec gx Y_FROM_GRID_X_IN, GRID_Z_IN)"
  by (simp add: grid_to_model_in_def interp_linear_spec_general[OF X_table_ok]
      interp_linear_spec_general[OF Y_table_ok])

text \<open>
  Claim C3. For every grid cell \<open>(gx, gy)\<close> the model X coordinate is the interpolation
  of the grid's Y index \<open>gy\<close> over the X knot table, the model Y coordinate is the
  interpolation of the grid's X index \<open>gx\<close> over the Y knot table, and Z is the constant
  \<open>GRID_Z_IN = 33.577\<close>; the mapping never raises. The cells \<open>(0, 10)\<close> and \<open>(10, 0)\<close>
  show the swap.
\<close>

theorem grid_to_model_in_axis_swap:
  "(\<exists>mx my. interp_linear gy X_FROM_GRID_Y_IN = Inr mx \<and>
            interp_linear gx Y_FROM_GRID_X_IN = Inr my \<and>
            grid_to_model_in gx gy = Inr (mx, my, GRID_Z_IN)) \<and>
   GRID_Z_IN = 33.577 \<and>
   grid_to_model_in 0 10 = Inr (102.999, 6.02, 33.577) \<and>
   grid_to_model_in 10 0 = Inr (8.039, 100.98, 33.577)"
proof (intro conjI)
  show "\<exists>mx my. interp_linear gy X_FROM_GRID_Y_IN = Inr mx \<and>
            interp_linear gx Y_FROM_GRID_X_IN = Inr my \<and>
            grid_to_model_in gx gy = Inr (mx, my, GRID_Z_IN)"
    by (simp add: grid_to_model_in_def interp_linear_spec_general[OF X_table_ok]
      interp_linear_spec_general[OF Y_table_ok])
  show "GRID_Z_IN = 33.577" by (simp add: GRID_Z_IN_def)
  show "grid_to_model_in 0 10 = Inr (102.999, 6.02, 33.577)"
    by (simp add: grid_to_model_in_def interp_linear_def getitem_def
        X_FROM_GRID_Y_IN_def Y_FROM_GRID_X_IN_def GRID_Z_IN_def)
  show "grid_to_model_in 10 0 = Inr (8.039, 100.98, 33.577)"
    by (simp add: grid_to_model_in_def interp_linear_def getitem_def
        X_FROM_GRID_Y_IN_def Y_FROM_GRID_X_IN_def GRID_Z_IN_def)
qed

subsection \<open>Normalisation\<close>






lemma hypot_axis_x: "hypot x 0 = \<bar>x\<bar>"
  unfolding hypot_def by simp

lemma hypot_axis_y: "hypot 0 y = \<bar>y\<bar>"
  unfolding hypot_def by simp



subsection \<open>Direction basis and the capture loops\<close>

lemma hypot_diag:
  assumes "\<bar>x\<bar> = 1" and "\<bar>y\<bar> = 1"
  shows "hypot x y = sqrt 2"
proof -
  have "x * x = \<bar>x\<bar> * \<bar>x\<bar>" "y * y = \<bar>y\<bar> * \<bar>y\<bar>" by simp_all
  with assms have "x * x + y * y = 2" by simp
  then show ?thesis unfolding hypot_def by simp
qed

lemma sqrt2_big: "\<not> sqrt 2 \<le> 1 / 10 ^ 9"
proof -
  have "1 < sqrt 2" by simp
  moreover have "(1 / 10 ^ 9 :: real) < 1" by simp
  ultimately show ?thesis by linarith
qed

lemma norm2d_diag:
  assumes "\<bar>x\<bar> = 1" and "\<bar>y\<bar> = 1"
  shows "norm2d x y = Inr (x / sqrt 2, y / sqrt 2)"
proof -
  have h: "hypot x y = sqrt 2" using assms by (rule hypot_diag)
  have nz: "sqrt 2 \<noteq> 0" by simp
  show ?thesis
    unfolding norm2d_def Let_def h using sqrt2_big nz
    by (simp only: if_False truediv_def bind_result_Inr)
qed

lemma norm2d_axis_x:
  "\<bar>x\<bar> > 1 / 10 ^ 9 \<Longrightarrow> norm2d x 0 = Inr (x / \<bar>x\<bar>, 0)"
  by (simp add: norm2d_def Let_def hypot_axis_x truediv_def)

lemma norm2d_axis_y:
  "\<bar>y\<bar> > 1 / 10 ^ 9 \<Longrightarrow> norm2d 0 y = Inr (0, y / \<bar>y\<bar>)"
  by (simp add: norm2d_def Let_def hypot_axis_y truediv_def)

lemma model_xy_cm_refs:
  "model_xy_cm 5 5 = Inr (55.519 * 2.54, 53.50 * 2.54)"
  "model_xy_cm 5 0 = Inr (8.039 * 2.54, 53.50 * 2.54)"
  "model_xy_cm 10 5 = Inr (55.519 * 2.54, 100.98 * 2.54)"
  by (simp_all add: model_xy_cm_def grid_to_model_in_def interp_linear_def getitem_def
      X_FROM_GRID_Y_IN_def Y_FROM_GRID_X_IN_def inches_to_cm_def CM_PER_IN_def)

lemma north_east:
  "norm2d (8.039 * 2.54 - 55.519 * 2.54) (53.50 * 2.54 - 53.50 * 2.54) = Inr (- 1, 0)"
  "norm2d (55.519 * 2.54 - 55.519 * 2.54) (100.98 * 2.54 - 53.50 * 2.54) = Inr (0, 1)"
  by (simp_all add: norm2d_axis_x norm2d_axis_y)


lemma direction_sets_value:
  "direction_sets =
     Inr ([(''north'', (- 1, 0)), (''east'', (0, 1)), (''south'', (1, 0)), (''west'', (0, - 1))],
          [(''ne'', (- 1 / sqrt 2, 1 / sqrt 2)), (''se'', (1 / sqrt 2, 1 / sqrt 2)),
           (''sw'', (1 / sqrt 2, - 1 / sqrt 2)), (''nw'', (- 1 / sqrt 2, - 1 / sqrt 2))])"
  unfolding direction_sets_def model_xy_cm_refs bind_result_Inr fst_conv snd_conv north_east Let_def
  by (simp add: norm2d_diag)

lemma radians_add: "radians (a + b) = radians a + radians b"
  by (simp add: radians_def algebra_simps)

lemma rot2d_formula:
  "rot2d vx vy deg =
     (vx * cos (deg * pi / 180) - vy * sin (deg * pi / 180),
      vx * sin (deg * pi / 180) + vy * cos (deg * pi / 180))"
  by (simp add: rot2d_def radians_def Let_def)

lemma rot2d_compose:
  "rot2d (fst (rot2d vx vy a)) (snd (rot2d vx vy a)) b = rot2d vx vy (a + b)"
  by (simp add: rot2d_def Let_def radians_add cos_add sin_add algebra_simps)

lemma rot2d_zero: "rot2d vx vy 0 = (vx, vy)"
  by (simp add: rot2d_def radians_def)

lemma rot2d_quarter: "rot2d 1 0 90 = (0, 1)"
  by (simp add: rot2d_def radians_def)

lemma capture_direction_requests:
  "capture_direction prefix gx gy cx cy cz (dir_name, (fx, fy)) =
     [\<lparr>eye_pt_cm = (cx - fy * inches_to_cm HALF_BASE_IN, cy - (- fx) * inches_to_cm HALF_BASE_IN, cz),
       fwd_vec3 = (fst (rot2d fx fy YAW_OFFSET_DEG) * cos (radians PITCH_UP_DEG),
                   snd (rot2d fx fy YAW_OFFSET_DEG) * cos (radians PITCH_UP_DEG),
                   sin (radians PITCH_UP_DEG)),
       v_fov_deg = VFOV_DEG,
       out_file = prefix @ ''_'' @ str_int gx @ ''_'' @ str_int gy @ ''_'' @ dir_name @ ''_left.png''\<rparr>,
      \<lparr>eye_pt_cm = (cx + fy * inches_to_cm HALF_BASE_IN, cy + (- fx) * inches_to_cm HALF_BASE_IN, cz),
       fwd_vec3 = (fst (rot2d fx fy (- YAW_OFFSET_DEG)) * cos (radians PITCH_UP_DEG),
                   snd (rot2d fx fy (- YAW_OFFSET_DEG)) * cos (radians PITCH_UP_DEG),
                   sin (radians PITCH_UP_DEG)),
       v_fov_deg = VFOV_DEG,
       out_file = prefix @ ''_'' @ str_int gx @ ''_'' @ str_int gy @ ''_'' @ dir_name @ ''_right.png''\<rparr>]"
  by (simp add: capture_direction_def Let_def)

lemma half_separation_cm: "inches_to_cm HALF_BASE_IN = 0.635"
  "HALF_BASE_IN = EYE_SEPARATION_IN / 2"
  by (simp_all add: inches_to_cm_def HALF_BASE_IN_def EYE_SEPARATION_IN_def CM_PER_IN_def)



lemma capture_cell_value:
  "capture_cell prefix dc dd (gx, gy) =
     Inr (concat (map (capture_direction prefix gx gy
            (inches_to_cm (interpolate_spec gy X_FROM_GRID_Y_IN))
            (inches_to_cm (interpolate_spec gx Y_FROM_GRID_X_IN))
            (inches_to_cm EYE_Z_IN))
          (if is_corner gx gy then dd else dc)))"
  by (simp add: capture_cell_def grid_to_model_in_value Let_def)


subsection \<open>Reading \<open>positions.txt\<close>\<close>

lemma dropWhile_rev_dropWhile:
  "dropWhile P (rev (dropWhile P (rev (dropWhile P s)))) = rev (dropWhile P (rev (dropWhile P s)))"
proof (cases "dropWhile P s")
  case Nil
  show ?thesis unfolding Nil by simp
next
  case (Cons c cs)
  then have nc: "\<not> P c" by (metis hd_dropWhile list.sel(1) list.distinct(1))
  have "dropWhile P (rev (c # cs)) \<noteq> []"
    using nc by (simp add: dropWhile_append)
  moreover have "last (dropWhile P (rev (c # cs))) = c"
    using nc  by (simp add: dropWhile_append) 
  ultimately have "hd (rev (dropWhile P (rev (c # cs)))) = c" "rev (dropWhile P (rev (c # cs))) \<noteq> []"
    by (simp_all add: hd_rev)
  then obtain t where "rev (dropWhile P (rev (c # cs))) = c # t"
    by (cases "rev (dropWhile P (rev (c # cs)))") auto
  then show ?thesis unfolding Cons using nc by simp
qed

lemma py_strip_idem: "py_strip (py_strip s) = py_strip s"
proof -
  define t where "t = dropWhile is_space (rev (dropWhile is_space s))"
  have ht: "dropWhile is_space t = t"
    unfolding t_def by simp
  have "py_strip (py_strip s) = rev (dropWhile is_space (rev (dropWhile is_space (rev t))))"
    by (simp add: py_strip_def t_def)
  also have "dropWhile is_space (rev t) = rev t"
    using dropWhile_rev_dropWhile[of is_space s] by (simp add: t_def)
  also have "rev (dropWhile is_space (rev (rev t))) = rev t"
    using ht by simp
  finally show ?thesis by (simp add: py_strip_def t_def)
qed

lemma py_int_strip: "py_int (py_strip s) = py_int s"
  by (simp add: py_int_def py_strip_idem)

lemma position_of_line_strip: "position_of_line (py_strip raw) = position_of_line raw"
  by (simp add: position_of_line_def blank_or_comment_def py_strip_idem)

text \<open>What the loop does with one trimmed line once the prefix is set.\<close>

lemma parse_lines_step:
  assumes "py_strip line = line"
  shows "parse_lines (line # lns) (Some p) positions =
     parse_lines lns (Some p)
       (case position_of_line line of None \<Rightarrow> positions | Some q \<Rightarrow> positions @ [q])"
proof (cases "line = [] \<or> startswith line ''#''")
  case True
  then show ?thesis using assms by (auto simp: position_of_line_def blank_or_comment_def)
next
  case False
  then have nb: "\<not> blank_or_comment line" using assms by (simp add: blank_or_comment_def)
  show ?thesis
  proof (cases "py_split line (CHR '','')")
    case Nil
    with False nb assms show ?thesis by (simp add: position_of_line_def)
  next
    case (Cons a as)
    note outer = Cons
    show ?thesis
    proof (cases as)
      case Nil
      with False nb assms outer show ?thesis by (simp add: position_of_line_def)
    next
      case (Cons b bs)
      show ?thesis
      proof (cases bs)
        case Nil
        with False nb assms outer Cons show ?thesis
          by (cases "py_int a"; cases "py_int b")
             (simp_all add: position_of_line_def py_int_strip)
      next
        case (Cons c cs)
        with False nb assms outer \<open>as = b # bs\<close> show ?thesis
          by (simp add: position_of_line_def)
      qed
    qed
  qed
qed

lemma parse_lines_with_prefix:
  "\<forall>line \<in> set lns. py_strip line = line \<Longrightarrow>
   parse_lines lns (Some p) positions =
     (Some p, positions @ List.map_filter position_of_line lns)"
proof (induction lns arbitrary: positions)
  case Nil
  show ?case by simp
next
  case (Cons line lns)
  then have t: "py_strip line = line" and rest: "\<forall>line \<in> set lns. py_strip line = line"
    by simp_all
  show ?case
    unfolding parse_lines_step[OF t] Cons.IH[OF rest]
    by (cases "position_of_line line") simp_all
qed

lemma map_filter_position_strip:
  "List.map_filter position_of_line (map py_strip lns) = List.map_filter position_of_line lns"
  by (induction lns)
     (simp_all add: position_of_line_strip split: option.splits)

lemma parse_lines_skip_leading:
  "\<forall>line \<in> set pre. line = [] \<or> startswith line ''#'' \<Longrightarrow>
   parse_lines (pre @ lns) prefix positions = parse_lines lns prefix positions"
  by (induction pre) auto

lemma parse_lines_all_skipped:
  "\<forall>line \<in> set lns. line = [] \<or> startswith line ''#'' \<Longrightarrow>
   parse_lines lns prefix positions = (prefix, positions)"
  using parse_lines_skip_leading[of lns "[]" prefix positions] by simp

lemma parse_positions_txt_prefixed:
  assumes pre: "\<forall>raw \<in> set pre. blank_or_comment raw" and p: "\<not> blank_or_comment p"
  shows "parse_positions_txt (pre @ p # rest) =
         Inr (py_strip p, List.map_filter position_of_line rest)"
proof -
  have a: "\<forall>line \<in> set (map py_strip pre). line = [] \<or> startswith line ''#''"
    using pre by (simp add: blank_or_comment_def)
  have b: "\<not> (py_strip p = [] \<or> startswith (py_strip p) ''#'')"
    using p by (simp add: blank_or_comment_def)
  have "parse_lines (map py_strip (pre @ p # rest)) None [] =
        parse_lines (py_strip p # map py_strip rest) None []"
    using parse_lines_skip_leading[OF a] by simp
  also have "\<dots> = parse_lines (map py_strip rest) (Some (py_strip p)) []"
    using b by simp
  also have "\<dots> = (Some (py_strip p), List.map_filter position_of_line (map py_strip rest))"
    by (simp add: parse_lines_with_prefix py_strip_idem)
  also have "List.map_filter position_of_line (map py_strip rest) =
             List.map_filter position_of_line rest"
    by (rule map_filter_position_strip)
  finally show ?thesis by (simp add: parse_positions_txt_def)
qed

lemma parse_positions_txt_no_prefix:
  assumes "\<forall>raw \<in> set file_lines. blank_or_comment raw"
  shows "parse_positions_txt file_lines =
         Inl (RuntimeError ''positions.txt missing file_prefix on first line.'')"
proof -
  have "\<forall>line \<in> set (map py_strip file_lines). line = [] \<or> startswith line ''#''"
    using assms by (simp add: blank_or_comment_def)
  then have "parse_lines (map py_strip file_lines) None [] = (None, [])"
    by (rule parse_lines_all_skipped)
  then show ?thesis by (simp add: parse_positions_txt_def)
qed

lemma parse_positions_txt_raises_iff:
  "(\<exists>e. parse_positions_txt file_lines = Inl e) \<longleftrightarrow>
   (\<forall>raw \<in> set file_lines. blank_or_comment raw)"
proof
  assume "\<forall>raw \<in> set file_lines. blank_or_comment raw"
  then show "\<exists>e. parse_positions_txt file_lines = Inl e"
    by (simp add: parse_positions_txt_no_prefix)
next
  assume err: "\<exists>e. parse_positions_txt file_lines = Inl e"
  show "\<forall>raw \<in> set file_lines. blank_or_comment raw"
  proof (rule ccontr)
    assume "\<not> (\<forall>raw \<in> set file_lines. blank_or_comment raw)"
    then have "\<exists>raw \<in> set file_lines. \<not> blank_or_comment raw" by simp
    then obtain pre p rest where "file_lines = pre @ p # rest" "\<not> blank_or_comment p"
      "\<forall>raw \<in> set pre. \<not> \<not> blank_or_comment raw"
      by (rule split_list_first_propE)
    then have "parse_positions_txt file_lines =
               Inr (py_strip p, List.map_filter position_of_line rest)"
      by (simp add: parse_positions_txt_prefixed)
    with err show False by simp
  qed
qed

lemma position_of_line_None_iff:
  "position_of_line raw = None \<longleftrightarrow>
     blank_or_comment raw \<or>
     length (py_split (py_strip raw) (CHR '','')) \<noteq> 2 \<or>
     (\<exists>e. py_int (py_split (py_strip raw) (CHR '','') ! 0) = Inl e) \<or>
     (\<exists>e. py_int (py_split (py_strip raw) (CHR '','') ! 1) = Inl e)"
proof (cases "blank_or_comment raw")
  case True
  then show ?thesis by (simp add: position_of_line_def)
next
  case False
  show ?thesis
  proof (cases "py_split (py_strip raw) (CHR '','')")
    case Nil
    with False show ?thesis by (simp add: position_of_line_def)
  next
    case (Cons a as)
    note outer = Cons
    show ?thesis
    proof (cases as)
      case Nil
      with False outer show ?thesis by (simp add: position_of_line_def)
    next
      case (Cons b bs)
      show ?thesis
      proof (cases bs)
        case Nil
        with False outer Cons show ?thesis
          by (cases "py_int a"; cases "py_int b") (simp_all add: position_of_line_def)
      next
        case (Cons c cs)
        with False outer \<open>as = b # bs\<close> show ?thesis by (simp add: position_of_line_def)
      qed
    qed
  qed
qed

lemma map_filter_skip:
  "position_of_line raw = None \<Longrightarrow>
   List.map_filter position_of_line (r1 @ raw # r2) = List.map_filter position_of_line (r1 @ r2)"
  by (simp add: List.map_filter_def)

lemma run_prefix_only:
  assumes "\<not> blank_or_comment p"
  shows "run [p] = ([], Completed (py_strip p))"
proof -
  have "parse_positions_txt ([] @ p # []) = Inr (py_strip p, List.map_filter position_of_line [])"
    using assms by (intro parse_positions_txt_prefixed) simp_all
  then have "parse_positions_txt [p] = Inr (py_strip p, [])"
    by simp
  then show ?thesis unfolding run_def direction_sets_value by simp
qed

lemma parse_positions_txt_error:
  "parse_positions_txt file_lines = Inl e \<Longrightarrow>
   e = RuntimeError ''positions.txt missing file_prefix on first line.''"
  by (simp add: parse_positions_txt_def split: prod.splits option.splits)

subsection \<open>Equality of the two variants\<close>

lemma CaptureView_find_bracket_eq: "CaptureView_find_bracket keys index = find_bracket keys index"
  by (induction keys index rule: find_bracket.induct) simp_all

subsection \<open>Corner cells, render counts, stereo poses\<close>

text \<open>
  Claim C5. A cell is a corner exactly when \<open>gx\<close> is 0 or 10 and \<open>gy\<close> is 0 or 10;
  cell \<open>(0, 0)\<close> is a corner and cell \<open>(5, 0)\<close> is not. The outer loop of \<open>run\<close> gives
  exactly the corner cells the diagonal set (\<open>ne\<close>, \<open>se\<close>, \<open>sw\<close>, \<open>nw\<close>) and every
  other cell the cardinal set (\<open>north\<close>, \<open>east\<close>, \<open>south\<close>, \<open>west\<close>).
\<close>

theorem is_corner_iff_selects_diagonals:
  "(is_corner gx gy \<longleftrightarrow> gx \<in> {0, 10} \<and> gy \<in> {0, 10}) \<and>
   is_corner 0 0 \<and> \<not> is_corner 5 0 \<and>
   (\<exists>dirs_cardinal dirs_diagonal cx cy cz.
      direction_sets = Inr (dirs_cardinal, dirs_diagonal) \<and>
      map fst dirs_cardinal = [''north'', ''east'', ''south'', ''west''] \<and>
      map fst dirs_diagonal = [''ne'', ''se'', ''sw'', ''nw''] \<and>
      capture_cell prefix dirs_cardinal dirs_diagonal (gx, gy) =
        Inr (concat (map (capture_direction prefix gx gy cx cy cz)
               (if gx \<in> {0, 10} \<and> gy \<in> {0, 10} then dirs_diagonal else dirs_cardinal))))"
proof (intro conjI)
  show c: "is_corner gx gy \<longleftrightarrow> gx \<in> {0, 10} \<and> gy \<in> {0, 10}"
    by (simp add: is_corner_def)
  show "is_corner 0 0" by (simp add: is_corner_def)
  show "\<not> is_corner 5 0" by (simp add: is_corner_def)
  show "\<exists>dirs_cardinal dirs_diagonal cx cy cz.
      direction_sets = Inr (dirs_cardinal, dirs_diagonal) \<and>
      map fst dirs_cardinal = [''north'', ''east'', ''south'', ''west''] \<and>
      map fst dirs_diagonal = [''ne'', ''se'', ''sw'', ''nw''] \<and>
      capture_cell prefix dirs_cardinal dirs_diagonal (gx, gy) =
        Inr (concat (map (capture_direction prefix gx gy cx cy cz)
               (if gx \<in> {0, 10} \<and> gy \<in> {0, 10} then dirs_diagonal else dirs_cardinal)))"
    unfolding c[symmetric]
    by (intro exI conjI, rule direction_sets_value, simp, simp, rule capture_cell_value)
qed



text \<open>
  Claim C7. For every centre \<open>(cx, cy, cz)\<close> and base forward vector \<open>(fx, fy)\<close> the
  right vector is \<open>(fy, - fx)\<close>; the left eye sits at the centre minus the right vector
  times the half separation, the right eye at the centre plus it, where the half
  separation is half of \<open>EYE_SEPARATION_IN\<close> converted to centimetres
  (\<open>0.5 / 2 * 2.54\<close>). Both eyes keep the centre's z, and the midpoint of the two eyes
  is the centre. The centre of a cell is its model point in centimetres at eye height.
\<close>

theorem eye_positions_symmetric:
  "(\<exists>left right.
      capture_direction prefix gx gy cx cy cz (dir_name, (fx, fy)) = [left, right] \<and>
      eye_pt_cm left =
        (cx - fy * inches_to_cm (EYE_SEPARATION_IN / 2),
         cy - (- fx) * inches_to_cm (EYE_SEPARATION_IN / 2), cz) \<and>
      eye_pt_cm right =
        (cx + fy * inches_to_cm (EYE_SEPARATION_IN / 2),
         cy + (- fx) * inches_to_cm (EYE_SEPARATION_IN / 2), cz) \<and>
      (fst (eye_pt_cm left) + fst (eye_pt_cm right)) / 2 = cx \<and>
      (fst (snd (eye_pt_cm left)) + fst (snd (eye_pt_cm right))) / 2 = cy \<and>
      snd (snd (eye_pt_cm left)) = cz \<and> snd (snd (eye_pt_cm right)) = cz) \<and>
   inches_to_cm (EYE_SEPARATION_IN / 2) = 0.5 / 2 * 2.54 \<and>
   (\<exists>mx_in my_in mz_in.
      grid_to_model_in gx gy = Inr (mx_in, my_in, mz_in) \<and>
      capture_cell prefix dirs_cardinal dirs_diagonal (gx, gy) =
        Inr (concat (map (capture_direction prefix gx gy
               (inches_to_cm mx_in) (inches_to_cm my_in) (inches_to_cm EYE_Z_IN))
               (if is_corner gx gy then dirs_diagonal else dirs_cardinal))))"
proof (intro conjI)
  show "\<exists>left right.
      capture_direction prefix gx gy cx cy cz (dir_name, (fx, fy)) = [left, right] \<and>
      eye_pt_cm left =
        (cx - fy * inches_to_cm (EYE_SEPARATION_IN / 2),
         cy - (- fx) * inches_to_cm (EYE_SEPARATION_IN / 2), cz) \<and>
      eye_pt_cm right =
        (cx + fy * inches_to_cm (EYE_SEPARATION_IN / 2),
         cy + (- fx) * inches_to_cm (EYE_SEPARATION_IN / 2), cz) \<and>
      (fst (eye_pt_cm left) + fst (eye_pt_cm right)) / 2 = cx \<and>
      (fst (snd (eye_pt_cm left)) + fst (snd (eye_pt_cm right))) / 2 = cy \<and>
      snd (snd (eye_pt_cm left)) = cz \<and> snd (snd (eye_pt_cm right)) = cz"
    unfolding capture_direction_requests half_separation_cm(2) by simp
  show "inches_to_cm (EYE_SEPARATION_IN / 2) = 0.5 / 2 * 2.54"
    by (simp add: inches_to_cm_def EYE_SEPARATION_IN_def CM_PER_IN_def)
  show "\<exists>mx_in my_in mz_in.
      grid_to_model_in gx gy = Inr (mx_in, my_in, mz_in) \<and>
      capture_cell prefix dirs_cardinal dirs_diagonal (gx, gy) =
        Inr (concat (map (capture_direction prefix gx gy
               (inches_to_cm mx_in) (inches_to_cm my_in) (inches_to_cm EYE_Z_IN))
               (if is_corner gx gy then dirs_diagonal else dirs_cardinal)))"
    by (intro exI conjI, rule grid_to_model_in_value, rule capture_cell_value)
qed

text \<open>
  Claim C8. The left eye's horizontal forward vector is the base forward vector
  rotated by \<open>+ YAW_OFFSET_DEG\<close>, the right eye's by \<open>- YAW_OFFSET_DEG\<close>, where \<open>rot2d\<close>
  is the standard rotation \<open>(x cos t - y sin t, x sin t + y cos t)\<close> (counter-clockwise
  for a positive angle: it takes \<open>(1, 0)\<close> to \<open>(0, 1)\<close> at 90 degrees). Rotating the
  right eye's vector by twice the offset gives the left eye's, and each eye's vector
  rotated back by the offset gives the base direction.
\<close>

theorem eye_yaw_symmetric:
  "(\<exists>left right.
      capture_direction prefix gx gy cx cy cz (dir_name, (fx, fy)) = [left, right] \<and>
      fwd_vec3 left =
        (fst (rot2d fx fy YAW_OFFSET_DEG) * cos (radians PITCH_UP_DEG),
         snd (rot2d fx fy YAW_OFFSET_DEG) * cos (radians PITCH_UP_DEG),
         sin (radians PITCH_UP_DEG)) \<and>
      fwd_vec3 right =
        (fst (rot2d fx fy (- YAW_OFFSET_DEG)) * cos (radians PITCH_UP_DEG),
         snd (rot2d fx fy (- YAW_OFFSET_DEG)) * cos (radians PITCH_UP_DEG),
         sin (radians PITCH_UP_DEG))) \<and>
   rot2d vx vy deg =
     (vx * cos (deg * pi / 180) - vy * sin (deg * pi / 180),
      vx * sin (deg * pi / 180) + vy * cos (deg * pi / 180)) \<and>
   rot2d (fst (rot2d fx fy (- YAW_OFFSET_DEG))) (snd (rot2d fx fy (- YAW_OFFSET_DEG)))
     (2 * YAW_OFFSET_DEG) = rot2d fx fy YAW_OFFSET_DEG \<and>
   rot2d (fst (rot2d fx fy YAW_OFFSET_DEG)) (snd (rot2d fx fy YAW_OFFSET_DEG))
     (- YAW_OFFSET_DEG) = (fx, fy) \<and>
   rot2d (fst (rot2d fx fy (- YAW_OFFSET_DEG))) (snd (rot2d fx fy (- YAW_OFFSET_DEG)))
     YAW_OFFSET_DEG = (fx, fy) \<and>
   YAW_OFFSET_DEG = 50 \<and> rot2d 1 0 90 = (0, 1)"
proof (intro conjI)
  show "\<exists>left right.
      capture_direction prefix gx gy cx cy cz (dir_name, (fx, fy)) = [left, right] \<and>
      fwd_vec3 left =
        (fst (rot2d fx fy YAW_OFFSET_DEG) * cos (radians PITCH_UP_DEG),
         snd (rot2d fx fy YAW_OFFSET_DEG) * cos (radians PITCH_UP_DEG),
         sin (radians PITCH_UP_DEG)) \<and>
      fwd_vec3 right =
        (fst (rot2d fx fy (- YAW_OFFSET_DEG)) * cos (radians PITCH_UP_DEG),
         snd (rot2d fx fy (- YAW_OFFSET_DEG)) * cos (radians PITCH_UP_DEG),
         sin (radians PITCH_UP_DEG))"
    unfolding capture_direction_requests by simp
  show "rot2d vx vy deg =
     (vx * cos (deg * pi / 180) - vy * sin (deg * pi / 180),
      vx * sin (deg * pi / 180) + vy * cos (deg * pi / 180))"
    by (rule rot2d_formula)
  show "rot2d (fst (rot2d fx fy (- YAW_OFFSET_DEG))) (snd (rot2d fx fy (- YAW_OFFSET_DEG)))
     (2 * YAW_OFFSET_DEG) = rot2d fx fy YAW_OFFSET_DEG"
    unfolding rot2d_compose by simp
  show "rot2d (fst (rot2d fx fy YAW_OFFSET_DEG)) (snd (rot2d fx fy YAW_OFFSET_DEG))
     (- YAW_OFFSET_DEG) = (fx, fy)"
    unfolding rot2d_compose by (simp add: rot2d_zero)
  show "rot2d (fst (rot2d fx fy (- YAW_OFFSET_DEG))) (snd (rot2d fx fy (- YAW_OFFSET_DEG)))
     YAW_OFFSET_DEG = (fx, fy)"
    unfolding rot2d_compose by (simp add: rot2d_zero)
  show "YAW_OFFSET_DEG = 50" by (simp add: YAW_OFFSET_DEG_def)
  show "rot2d 1 0 90 = (0, 1)" by (rule rot2d_quarter)
qed

text \<open>
  Claim C9, as amended. The prefix is the first line that, trimmed, is neither empty
  nor starts with \<open>#\<close>, wherever it stands in the file. \<open>parse_positions_txt\<close> raises
  (its \<open>RuntimeError\<close>) exactly when the file has no such line. Every later line yields a
  position when it is a \<open>gx,gy\<close> pair and is skipped otherwise: when it is blank, a
  comment, does not split into exactly two comma-separated parts, or a part does not
  parse as an integer. A file that holds only a prefix line gives a job with no cells,
  and \<open>run\<close> then issues no render request and completes.
\<close>

theorem parse_positions_txt_first_content_line:
  "((\<exists>e. parse_positions_txt file_lines = Inl e) \<longleftrightarrow>
      (\<forall>raw \<in> set file_lines. blank_or_comment raw)) \<and>
   (\<forall>e. parse_positions_txt file_lines = Inl e \<longrightarrow>
      e = RuntimeError ''positions.txt missing file_prefix on first line.'') \<and>
   (\<forall>pre p rest.
      file_lines = pre @ p # rest \<longrightarrow> (\<forall>raw \<in> set pre. blank_or_comment raw) \<longrightarrow>
      \<not> blank_or_comment p \<longrightarrow>
      parse_positions_txt file_lines =
        Inr (py_strip p, List.map_filter position_of_line rest)) \<and>
   (\<forall>pre p r1 raw r2.
      (\<forall>raw \<in> set pre. blank_or_comment raw) \<longrightarrow> \<not> blank_or_comment p \<longrightarrow>
      position_of_line raw = None \<longrightarrow>
      parse_positions_txt (pre @ p # r1 @ raw # r2) = parse_positions_txt (pre @ p # r1 @ r2)) \<and>
   (\<forall>raw. position_of_line raw = None \<longleftrightarrow>
      blank_or_comment raw \<or>
      length (py_split (py_strip raw) (CHR '','')) \<noteq> 2 \<or>
      (\<exists>e. py_int (py_split (py_strip raw) (CHR '','') ! 0) = Inl e) \<or>
      (\<exists>e. py_int (py_split (py_strip raw) (CHR '','') ! 1) = Inl e)) \<and>
   (\<forall>p. \<not> blank_or_comment p \<longrightarrow>
      parse_positions_txt [p] = Inr (py_strip p, []) \<and> run [p] = ([], Completed (py_strip p)))"
proof (intro conjI allI impI)
  show "(\<exists>e. parse_positions_txt file_lines = Inl e) \<longleftrightarrow>
      (\<forall>raw \<in> set file_lines. blank_or_comment raw)"
    by (rule parse_positions_txt_raises_iff)
next
  fix e assume "parse_positions_txt file_lines = Inl e"
  then show "e = RuntimeError ''positions.txt missing file_prefix on first line.''"
    by (rule parse_positions_txt_error)
next
  fix pre p rest
  assume "file_lines = pre @ p # rest" "\<forall>raw \<in> set pre. blank_or_comment raw"
    "\<not> blank_or_comment p"
  then show "parse_positions_txt file_lines =
        Inr (py_strip p, List.map_filter position_of_line rest)"
    by (simp add: parse_positions_txt_prefixed)
next
  fix pre p r1 raw r2
  assume a: "\<forall>raw \<in> set pre. blank_or_comment raw" "\<not> blank_or_comment p"
    and n: "position_of_line raw = None"
  show "parse_positions_txt (pre @ p # r1 @ raw # r2) = parse_positions_txt (pre @ p # r1 @ r2)"
    unfolding parse_positions_txt_prefixed[OF a] map_filter_skip[OF n] ..
next
  fix raw
  show "position_of_line raw = None \<longleftrightarrow>
      blank_or_comment raw \<or>
      length (py_split (py_strip raw) (CHR '','')) \<noteq> 2 \<or>
      (\<exists>e. py_int (py_split (py_strip raw) (CHR '','') ! 0) = Inl e) \<or>
      (\<exists>e. py_int (py_split (py_strip raw) (CHR '','') ! 1) = Inl e)"
    by (rule position_of_line_None_iff)
next
  fix p assume p: "\<not> blank_or_comment p"
  have "parse_positions_txt ([] @ p # []) = Inr (py_strip p, List.map_filter position_of_line [])"
    using p by (intro parse_positions_txt_prefixed) simp_all
  then show "parse_positions_txt [p] = Inr (py_strip p, [])"
    by simp
next
  fix p assume "\<not> blank_or_comment p"
  then show "run [p] = ([], Completed (py_strip p))" by (rule run_prefix_only)
qed

theorem parse_positions_txt_first_content_line_witness:
  "parse_positions_txt [''# grid'', ''  ''] =
     Inl (RuntimeError ''positions.txt missing file_prefix on first line.'') \<and>
   parse_positions_txt
     [''# grid'', '' run1 '', ''1,2'', ''oops'', ''3, 4'', '''', ''1,2,3'', ''x,5''] =
     Inr (''run1'', [(1, 2), (3, 4)]) \<and>
   parse_positions_txt [''run1'', ''1,2'', ''x,5'', ''3, 4''] =
     parse_positions_txt [''run1'', ''1,2'', ''3, 4''] \<and>
   parse_positions_txt [''run1''] = Inr (''run1'', []) \<and>
   run [''run1''] = ([], Completed ''run1'')"
proof -
  note spec_thm = parse_positions_txt_first_content_line
  have blank1: "\<forall>raw \<in> set [''# grid'', ''  '']. blank_or_comment raw"
    and blank2: "\<forall>raw \<in> set [''# grid'']. blank_or_comment raw"
    and blank3: "\<forall>raw \<in> set ([] :: string list). blank_or_comment raw"
    and content1: "\<not> blank_or_comment '' run1 ''"
    and content2: "\<not> blank_or_comment ''run1''"
    by (simp_all add: blank_or_comment_def py_strip_def is_space_def startswith_def)
  have strip: "py_strip '' run1 '' = ''run1''" "py_strip ''run1'' = ''run1''"
    by (simp_all add: py_strip_def is_space_def)
  have pos: "position_of_line ''1,2'' = Some (1, 2)" "position_of_line ''oops'' = None"
    "position_of_line ''3, 4'' = Some (3, 4)" "position_of_line '''' = None"
    "position_of_line ''1,2,3'' = None" "position_of_line ''x,5'' = None"
    by (simp_all add: position_of_line_def blank_or_comment_def py_strip_def is_space_def
        startswith_def py_int_def digits_value_def is_digit_def digit_val_def)
  obtain e where e: "parse_positions_txt [''# grid'', ''  ''] = Inl e"
    using spec_thm[of "[''# grid'', ''  '']", THEN conjunct1, THEN iffD2, OF blank1] ..
  have "e = RuntimeError ''positions.txt missing file_prefix on first line.''"
    using spec_thm[of "[''# grid'', ''  '']", THEN conjunct2, THEN conjunct1,
        THEN spec, THEN mp, OF e] .
  with e have a: "parse_positions_txt [''# grid'', ''  ''] =
     Inl (RuntimeError ''positions.txt missing file_prefix on first line.'')"
    by simp
  have parts: "[''# grid'', '' run1 '', ''1,2'', ''oops'', ''3, 4'', '''', ''1,2,3'', ''x,5''] =
        [''# grid''] @ '' run1 '' # [''1,2'', ''oops'', ''3, 4'', '''', ''1,2,3'', ''x,5'']"
    by simp
  have "parse_positions_txt
     [''# grid'', '' run1 '', ''1,2'', ''oops'', ''3, 4'', '''', ''1,2,3'', ''x,5''] =
     Inr (py_strip '' run1 '',
          List.map_filter position_of_line
            [''1,2'', ''oops'', ''3, 4'', '''', ''1,2,3'', ''x,5''])"
    using spec_thm[THEN conjunct2, THEN conjunct2, THEN conjunct1,
        THEN spec, THEN spec, THEN spec, THEN mp, THEN mp, THEN mp,
        OF parts blank2 content1] .
  then have b: "parse_positions_txt
     [''# grid'', '' run1 '', ''1,2'', ''oops'', ''3, 4'', '''', ''1,2,3'', ''x,5''] =
     Inr (''run1'', [(1, 2), (3, 4)])"
    by (simp add: strip pos)
  have "parse_positions_txt ([] @ ''run1'' # [''1,2''] @ ''x,5'' # [''3, 4'']) =
        parse_positions_txt ([] @ ''run1'' # [''1,2''] @ [''3, 4''])"
    using spec_thm[of "[]", THEN conjunct2, THEN conjunct2, THEN conjunct2, THEN conjunct1,
        THEN spec, THEN spec, THEN spec, THEN spec, THEN spec, THEN mp, THEN mp, THEN mp,
        OF blank3 content2 pos(6)] .
  then have c: "parse_positions_txt [''run1'', ''1,2'', ''x,5'', ''3, 4''] =
     parse_positions_txt [''run1'', ''1,2'', ''3, 4'']" by simp
  have "parse_positions_txt [''run1''] = Inr (py_strip ''run1'', []) \<and>
        run [''run1''] = ([], Completed (py_strip ''run1''))"
    using spec_thm[of "[]", THEN conjunct2, THEN conjunct2, THEN conjunct2, THEN conjunct2,
        THEN conjunct2, THEN spec, THEN mp, OF content2] .
  then have d: "parse_positions_txt [''run1''] = Inr (''run1'', [])"
    and f: "run [''run1''] = ([], Completed ''run1'')"
    by (simp_all add: strip)
  from a b c d f show ?thesis by (intro conjI)
qed

text \<open>
  The claim as stated, with the prefix on line 1: a file whose first line is empty has
  no prefix on line 1, yet parsing does not raise (the second line becomes the prefix);
  and under a leading comment the prefix is taken from line 2.
\<close>

theorem parse_positions_txt_line_one_counterexample:
  "py_strip (hd ['''', ''5,5'']) = [] \<and>
   parse_positions_txt ['''', ''5,5''] = Inr (''5,5'', []) \<and>
   parse_positions_txt [''# grid'', ''run1'', ''3,4''] = Inr (''run1'', [(3, 4)]) \<and>
   hd [''# grid'', ''run1'', ''3,4''] \<noteq> ''run1''"
  by (simp add: parse_positions_txt_def py_strip_def is_space_def startswith_def
      py_int_def digits_value_def is_digit_def digit_val_def)

text \<open>
  Claim C10. The geometric core of \<open>CaptureView/CaptureView.py\<close> equals that of
  \<open>capture.py\<close>: the six functions are extensionally equal, and the knot tables and the
  geometry and camera constants are the same.
\<close>

theorem CaptureView_core_equals_capture:
  "CaptureView_interp_linear = interp_linear \<and>
   CaptureView_grid_to_model_in = grid_to_model_in \<and>
   CaptureView_inches_to_cm = inches_to_cm \<and>
   CaptureView_rot2d = rot2d \<and>
   CaptureView_norm2d = norm2d \<and>
   CaptureView_is_corner = is_corner \<and>
   CaptureView_X_FROM_GRID_Y_IN = X_FROM_GRID_Y_IN \<and>
   CaptureView_Y_FROM_GRID_X_IN = Y_FROM_GRID_X_IN \<and>
   CaptureView_CM_PER_IN = CM_PER_IN \<and>
   CaptureView_GRID_Z_IN = GRID_Z_IN \<and>
   CaptureView_EYE_RAISE_IN = EYE_RAISE_IN \<and>
   CaptureView_EYE_Z_IN = EYE_Z_IN \<and>
   CaptureView_EYE_SEPARATION_IN = EYE_SEPARATION_IN \<and>
   CaptureView_HALF_BASE_IN = HALF_BASE_IN \<and>
   CaptureView_YAW_OFFSET_DEG = YAW_OFFSET_DEG \<and>
   CaptureView_PITCH_UP_DEG = PITCH_UP_DEG \<and>
   CaptureView_VFOV_DEG = VFOV_DEG \<and>
   CaptureView_IMG_W = IMG_W \<and>
   CaptureView_IMG_H = IMG_H"
proof -
  have tx: "CaptureView_X_FROM_GRID_Y_IN = X_FROM_GRID_Y_IN"
    by (simp add: CaptureView_X_FROM_GRID_Y_IN_def X_FROM_GRID_Y_IN_def)
  have ty: "CaptureView_Y_FROM_GRID_X_IN = Y_FROM_GRID_X_IN"
    by (simp add: CaptureView_Y_FROM_GRID_X_IN_def Y_FROM_GRID_X_IN_def)
  have cm: "CaptureView_CM_PER_IN = CM_PER_IN"
    by (simp add: CaptureView_CM_PER_IN_def CM_PER_IN_def)
  have gz: "CaptureView_GRID_Z_IN = GRID_Z_IN"
    by (simp add: CaptureView_GRID_Z_IN_def GRID_Z_IN_def)
  have er: "CaptureView_EYE_RAISE_IN = EYE_RAISE_IN"
    by (simp add: CaptureView_EYE_RAISE_IN_def EYE_RAISE_IN_def)
  have ez: "CaptureView_EYE_Z_IN = EYE_Z_IN"
    by (simp add: CaptureView_EYE_Z_IN_def EYE_Z_IN_def gz er)
  have es: "CaptureView_EYE_SEPARATION_IN = EYE_SEPARATION_IN"
    by (simp add: CaptureView_EYE_SEPARATION_IN_def EYE_SEPARATION_IN_def)
  have hb: "CaptureView_HALF_BASE_IN = HALF_BASE_IN"
    by (simp add: CaptureView_HALF_BASE_IN_def HALF_BASE_IN_def es)
  have cam: "CaptureView_YAW_OFFSET_DEG = YAW_OFFSET_DEG"
    "CaptureView_PITCH_UP_DEG = PITCH_UP_DEG" "CaptureView_VFOV_DEG = VFOV_DEG"
    "CaptureView_IMG_W = IMG_W" "CaptureView_IMG_H = IMG_H"
    by (simp_all add: CaptureView_YAW_OFFSET_DEG_def YAW_OFFSET_DEG_def
        CaptureView_PITCH_UP_DEG_def PITCH_UP_DEG_def CaptureView_VFOV_DEG_def VFOV_DEG_def
        CaptureView_IMG_W_def IMG_W_def CaptureView_IMG_H_def IMG_H_def)
  have il: "CaptureView_interp_linear = interp_linear"
    by (intro ext)
       (simp only: CaptureView_interp_linear_def interp_linear_def CaptureView_find_bracket_eq)
  have gm: "CaptureView_grid_to_model_in = grid_to_model_in"
    by (intro ext)
       (simp only: CaptureView_grid_to_model_in_def grid_to_model_in_def il tx ty gz)
  have ic: "CaptureView_inches_to_cm = inches_to_cm"
    by (intro ext) (simp only: CaptureView_inches_to_cm_def inches_to_cm_def cm)
  have ro: "CaptureView_rot2d = rot2d"
    by (intro ext) (simp only: CaptureView_rot2d_def rot2d_def)
  have no: "CaptureView_norm2d = norm2d"
    by (intro ext) (simp only: CaptureView_norm2d_def norm2d_def)
  have co: "CaptureView_is_corner = is_corner"
    by (intro ext) (simp only: CaptureView_is_corner_def is_corner_def)
  from il gm ic ro no co tx ty cm gz er ez es hb cam show ?thesis by blast
qed

end
